theory Spec2Isabelle
  imports Complex_Main
begin

section \<open>Python values\<close>

text \<open>
  The repository keeps every architecture and every stored result as JSON: a value is
  what \<^verbatim>\<open>json.load\<close> can return. A \<^verbatim>\<open>float\<close> is modelled by the real number
  it denotes (no rounding, no infinities, no NaN), an \<^verbatim>\<open>int\<close> by an unbounded integer, a
  \<^verbatim>\<open>str\<close> by the list of its characters (the UTF-8 bytes for text beyond ASCII) and a
  \<^verbatim>\<open>dict\<close> by its items in insertion order; a key is looked up with \<open>map_of\<close>.
\<close>

datatype pyval =
    PNone
  | PBool bool
  | PInt int
  | PFloat real
  | PStr string
  | PList "pyval list"
  | PDict "(string \<times> pyval) list"

type_synonym pydict = "(string \<times> pyval) list"

text \<open>The exceptions the modelled code can raise; each of them is a subclass of
  \<^verbatim>\<open>Exception\<close>.\<close>

datatype py_exception =
    TypeError
  | AttributeError
  | ValueError
  | KeyError
  | RequestException
  | HTTPError
  | JSONDecodeError
  | OverflowError
  | RecursionError

text \<open>The instances of \<^verbatim>\<open>(int, float)\<close> and the number each one stands for;
  \<^verbatim>\<open>bool\<close> is a subclass of \<^verbatim>\<open>int\<close>, so \<^verbatim>\<open>isinstance(True, (int, float))\<close> holds and
  \<^verbatim>\<open>True\<close> counts as 1.\<close>

fun as_num :: "pyval \<Rightarrow> real option" where
  "as_num (PBool b) = Some (if b then 1 else 0)"
| "as_num (PInt i) = Some (of_int i)"
| "as_num (PFloat r) = Some r"
| "as_num _ = None"

text \<open>\<^verbatim>\<open>a == b\<close>: numbers compare by value across bool, int and float, dicts regardless of
  the order of their items, and values of different kinds are unequal.\<close>

fun py_eq :: "pyval \<Rightarrow> pyval \<Rightarrow> bool" where
  "py_eq PNone PNone = True"
| "py_eq (PStr s) (PStr t) = (s = t)"
| "py_eq (PList xs) (PList ys) = list_all2 py_eq xs ys"
| "py_eq (PDict d) (PDict e) =
     (length d = length e \<and>
      list_all (\<lambda>(k, v). case map_of e k of None \<Rightarrow> False | Some w \<Rightarrow> py_eq v w) d)"
| "py_eq a b = (case (as_num a, as_num b) of (Some x, Some y) \<Rightarrow> x = y | _ \<Rightarrow> False)"

text \<open>\<^verbatim>\<open>s > t\<close> on strings: lexicographic on the characters.\<close>

fun str_gt :: "string \<Rightarrow> string \<Rightarrow> bool" where
  "str_gt [] t = False"
| "str_gt (c # s) [] = True"
| "str_gt (c # s) (d # t) = (if c = d then str_gt s t else (of_char d :: nat) < of_char c)"

text \<open>\<^verbatim>\<open>a > b\<close>: defined between numbers, between strings and between lists (at the first
  pair of unequal elements, else by length); anything else raises \<^verbatim>\<open>TypeError\<close>.\<close>

fun py_gt :: "pyval \<Rightarrow> pyval \<Rightarrow> py_exception + bool"
  and list_gt :: "pyval list \<Rightarrow> pyval list \<Rightarrow> py_exception + bool" where
  "py_gt (PStr s) (PStr t) = Inr (str_gt s t)"
| "py_gt (PList xs) (PList ys) = list_gt xs ys"
| "py_gt a b = (case (as_num a, as_num b) of (Some x, Some y) \<Rightarrow> Inr (y < x) | _ \<Rightarrow> Inl TypeError)"
| "list_gt [] ys = Inr False"
| "list_gt (x # xs) [] = Inr True"
| "list_gt (x # xs) (y # ys) = (if py_eq x y then list_gt xs ys else py_gt x y)"


text \<open>\<^verbatim>\<open>x.get(k, default)\<close>: only a dict has the method.\<close>

fun py_get :: "pyval \<Rightarrow> string \<Rightarrow> pyval \<Rightarrow> py_exception + pyval" where
  "py_get (PDict d) k dflt = Inr (case map_of d k of Some v \<Rightarrow> v | None \<Rightarrow> dflt)"
| "py_get _ k dflt = Inl AttributeError"

text \<open>\<^verbatim>\<open>d[k] = v\<close>: an existing key keeps its place, a new key goes to the end.\<close>

fun dict_set :: "pydict \<Rightarrow> string \<Rightarrow> pyval \<Rightarrow> pydict" where
  "dict_set [] k v = [(k, v)]"
| "dict_set ((k', v') # d) k v = (if k' = k then (k, v) # d else (k', v') # dict_set d k v)"

text \<open>\<^verbatim>\<open>int(x)\<close> of a float: truncation towards zero.\<close>

definition py_int :: "real \<Rightarrow> int" where
  "py_int x = (if 0 \<le> x then \<lfloor>x\<rfloor> else \<lceil>x\<rceil>)"

text \<open>\<^verbatim>\<open>max(a, b)\<close> and \<^verbatim>\<open>min(a, b)\<close> of two numbers: the first argument is kept unless the
  second is strictly greater (smaller).\<close>

definition py_max2 :: "real \<Rightarrow> real \<Rightarrow> real" where
  "py_max2 a b = (if a < b then b else a)"

definition py_min2 :: "real \<Rightarrow> real \<Rightarrow> real" where
  "py_min2 a b = (if b < a then b else a)"

text \<open>\<^verbatim>\<open>xs[:k]\<close>: the first \<open>k\<close> elements, and for a negative \<open>k\<close> all but the last \<open>-k\<close>.\<close>

definition py_slice_to :: "'a list \<Rightarrow> int \<Rightarrow> 'a list" where
  "py_slice_to xs k = (if 0 \<le> k then take (nat k) xs else take (nat (int (length xs) + k)) xs)"

subsection \<open>Strings\<close>

text \<open>White space as \<^verbatim>\<open>str.strip()\<close> and \<^verbatim>\<open>str.split()\<close> see it, and \<^verbatim>\<open>str.lower()\<close>, on ASCII
  text: tab, line feed, vertical tab, form feed, carriage return, the four separators
  28 to 31 and the space; the letters A to Z. Characters beyond ASCII are neither white
  space nor cased in this model.\<close>

definition is_space :: "char \<Rightarrow> bool" where
  "is_space c = (let n = (of_char c :: nat) in (9 \<le> n \<and> n \<le> 13) \<or> (28 \<le> n \<and> n \<le> 32))"

definition lower_char :: "char \<Rightarrow> char" where
  "lower_char c = (let n = (of_char c :: nat) in if 65 \<le> n \<and> n \<le> 90 then char_of (n + 32) else c)"

definition lower :: "string \<Rightarrow> string" where
  "lower s = map lower_char s"



text \<open>\<^verbatim>\<open>s.split()\<close>: the maximal runs of characters that are not white space; \<open>w\<close> is the
  word being read.\<close>

fun split_acc :: "string \<Rightarrow> string \<Rightarrow> string list" where
  "split_acc w [] = (if w = [] then [] else [w])"
| "split_acc w (c # s) =
     (if is_space c then (if w = [] then split_acc [] s else w # split_acc [] s)
      else split_acc (w @ [c]) s)"

definition split_ws :: "string \<Rightarrow> string list" where
  "split_ws s = split_acc [] s"

text \<open>\<^verbatim>\<open>word in sent\<close> on strings: \<open>word\<close> occurs as a contiguous piece of \<open>sent\<close>.\<close>

fun starts_with :: "string \<Rightarrow> string \<Rightarrow> bool" where
  "starts_with s [] = True"
| "starts_with [] (c # w) = False"
| "starts_with (d # s) (c # w) = (d = c \<and> starts_with s w)"

fun str_contains :: "string \<Rightarrow> string \<Rightarrow> bool" where
  "str_contains word [] = (word = [])"
| "str_contains word (c # s) = (starts_with (c # s) word \<or> str_contains word s)"

text \<open>\<^verbatim>\<open>k in data\<close> for a string \<open>k\<close>, and \<^verbatim>\<open>data[k]\<close>.\<close>

fun py_in :: "string \<Rightarrow> pyval \<Rightarrow> py_exception + bool" where
  "py_in k (PDict d) = Inr (map_of d k \<noteq> None)"
| "py_in k (PList xs) = Inr (list_ex (\<lambda>x. py_eq x (PStr k)) xs)"
| "py_in k (PStr s) = Inr (str_contains k s)"
| "py_in k _ = Inl TypeError"

fun py_getitem :: "pyval \<Rightarrow> string \<Rightarrow> py_exception + pyval" where
  "py_getitem (PDict d) k = (case map_of d k of Some v \<Rightarrow> Inr v | None \<Rightarrow> Inl KeyError)"
| "py_getitem _ k = Inl TypeError"

section \<open>The result store (database/mongodb_api.py)\<close>

text \<open>The store is the list that \<^verbatim>\<open>_load_all\<close> reads from the JSON file and
  \<^verbatim>\<open>_save_all\<close> writes back; the model passes that list explicitly.\<close>

definition baseline :: pyval where
  "baseline = PDict [(''id'', PStr ''baseline''), (''hidden_size'', PInt 512),
                     (''num_layers'', PInt 6), (''num_heads'', PInt 8)]"

definition default_architecture :: pyval where
  "default_architecture =
     PDict [(''hidden_size'', PInt 512), (''num_layers'', PInt 6), (''num_heads'', PInt 8)]"

text \<open>The key function of the search, \<^verbatim>\<open>lambda x: x.get('composite_score', 0)\<close>.\<close>

definition composite_key :: "pyval \<Rightarrow> py_exception + pyval" where
  "composite_key x = py_get x ''composite_score'' (PInt 0)"

text \<open>\<^verbatim>\<open>max(data, key=f)\<close>: the builtin keeps the first item and replaces it only by an
  item whose key is strictly greater; on an empty list it raises \<^verbatim>\<open>ValueError\<close>.\<close>

fun max_loop :: "(pyval \<Rightarrow> py_exception + pyval) \<Rightarrow> pyval \<Rightarrow> pyval \<Rightarrow> pyval list
    \<Rightarrow> py_exception + pyval" where
  "max_loop f maxitem maxval [] = Inr maxitem"
| "max_loop f maxitem maxval (item # rest) =
     (case f item of
        Inl e \<Rightarrow> Inl e
      | Inr val \<Rightarrow>
          (case py_gt val maxval of
             Inl e \<Rightarrow> Inl e
           | Inr is_gt \<Rightarrow>
               if is_gt then max_loop f item val rest else max_loop f maxitem maxval rest))"

fun py_max :: "(pyval \<Rightarrow> py_exception + pyval) \<Rightarrow> pyval list \<Rightarrow> py_exception + pyval" where
  "py_max f [] = Inl ValueError"
| "py_max f (item # rest) =
     (case f item of Inl e \<Rightarrow> Inl e | Inr val \<Rightarrow> max_loop f item val rest)"

definition sample_parent :: "pyval list \<Rightarrow> py_exception + pyval" where
  "sample_parent data =
     (if data = [] then Inr baseline
      else (case py_max composite_key data of
              Inl e \<Rightarrow> Inl e
            | Inr best \<Rightarrow> py_get best ''architecture'' default_architecture))"

section \<open>The evaluator (pipeline/eval.py)\<close>

record EvaluationResult =
  performance :: real
  novelty :: real
  complexity :: real
  raw_response :: pyval

record ArchitectureEvaluator =
  model :: pyval
  use_local :: pyval


text \<open>What lies outside the repository: the answer to the one HTTP request, and the
  library functions \<^verbatim>\<open>json.dumps\<close>, \<^verbatim>\<open>json.loads\<close> and \<^verbatim>\<open>float\<close> of a string
  (\<open>None\<close> where it raises \<^verbatim>\<open>ValueError\<close>). Both JSON functions can raise:
  \<^verbatim>\<open>json.dumps\<close> does on a value nested deeper than the interpreter recurses. An answer is either no answer at all
  (connection refused, timeout: \<^verbatim>\<open>requests.post\<close> raises) or a status code with the
  outcome of \<^verbatim>\<open>r.json()\<close>.\<close>

datatype http_reply = NoReply | Reply int "py_exception + pyval"

record environment =
  requests_post :: "pyval \<Rightarrow> http_reply"
  json_dumps :: "pyval \<Rightarrow> py_exception + string"
  json_loads :: "string \<Rightarrow> py_exception + pyval"
  float_of_str :: "string \<Rightarrow> real option"

definition call_llm :: "environment \<Rightarrow> ArchitectureEvaluator \<Rightarrow> string \<Rightarrow> py_exception + pyval" where
  "call_llm env self prompt =
     (let payload = PDict [(''model'', model self), (''prompt'', PStr prompt),
                           (''stream'', PBool False)]
      in case requests_post env payload of
           NoReply \<Rightarrow> Inl RequestException
         | Reply status_code body \<Rightarrow>
             if 400 \<le> status_code \<and> status_code < 600 then Inl HTTPError
             else (case body of
                     Inl e \<Rightarrow> Inl e
                   | Inr data \<Rightarrow>
                       (case py_in ''response'' data of
                          Inl e \<Rightarrow> Inl e
                        | Inr present \<Rightarrow>
                            if \<not> present then Inl ValueError
                            else py_getitem data ''response'')))"








section \<open>The analyzer (pipeline/analyze.py)\<close>

record AnalysisReport =
  architecture :: pydict
  evaluation :: EvaluationResult
  composite_score :: real
  summary :: string

text \<open>The composite of \<^verbatim>\<open>analyze\<close>: the weighted sum, then
  \<^verbatim>\<open>max(0.0, min(1.0, composite))\<close>.\<close>

definition composite_of :: "EvaluationResult \<Rightarrow> real" where
  "composite_of ev =
     (let composite = 0.6 * performance ev + 0.3 * novelty ev - 0.1 * complexity ev
      in py_max2 0 (py_min2 1 composite))"

text \<open>\<open>fmt\<close> is the format \<^verbatim>\<open>:.2f\<close> of a float and \<open>str_of\<close> the text an f-string puts for
  an object; both belong to the language.\<close>

definition analyze :: "(real \<Rightarrow> string) \<Rightarrow> (pyval \<Rightarrow> string) \<Rightarrow> pydict \<Rightarrow> EvaluationResult
    \<Rightarrow> AnalysisReport" where
  "analyze fmt str_of arch ev =
     (let composite = composite_of ev;
          ident = (case map_of arch ''id'' of Some v \<Rightarrow> v | None \<Rightarrow> PStr ''unknown'');
          text = ''Architecture '' @ str_of ident @ '' achieved a '' @
                 ''performance score of '' @ fmt (performance ev) @ '', '' @
                 ''novelty score of '' @ fmt (novelty ev) @ '' and '' @
                 ''complexity score of '' @ fmt (complexity ev) @ ''. '' @
                 ''Composite score: '' @ fmt composite @ ''.''
      in \<lparr>architecture = arch, evaluation = ev, composite_score = composite, summary = text\<rparr>)"

text \<open>\<^verbatim>\<open>save_result\<close> appends the report, as a dict, to the stored list.\<close>

definition entry_of :: "AnalysisReport \<Rightarrow> pyval" where
  "entry_of report =
     PDict [(''architecture'', PDict (architecture report)),
            (''evaluation'',
               PDict [(''performance'', PFloat (performance (evaluation report))),
                      (''novelty'', PFloat (novelty (evaluation report))),
                      (''complexity'', PFloat (complexity (evaluation report))),
                      (''raw_response'', raw_response (evaluation report))]),
            (''composite_score'', PFloat (composite_score report)),
            (''summary'', PStr (summary report))]"

definition save_result :: "pyval list \<Rightarrow> AnalysisReport \<Rightarrow> pyval list" where
  "save_result data report = data @ [entry_of report]"

section \<open>The evolver (pipeline/evolve.py)\<close>

text \<open>The keys to mutate with their ranges, in the order the loop visits them.\<close>

definition numeric_keys :: "(string \<times> int \<times> int) list" where
  "numeric_keys = [(''hidden_size'', 32, 2048), (''num_layers'', 1, 48), (''num_heads'', 1, 32)]"

text \<open>\<^verbatim>\<open>random.gauss(mu, sigma)\<close> returns \<open>mu + z * sigma\<close> for a standard normal variate
  \<open>z\<close>; the variate is an argument of the model.\<close>

definition gauss :: "real \<Rightarrow> real \<Rightarrow> real \<Rightarrow> real" where
  "gauss mu sigma z = mu + z * sigma"

text \<open>One round of the loop on the candidate; \<open>z key\<close> is the variate drawn in the round
  for \<open>key\<close>, when that round draws one.\<close>

definition evolve_key :: "real \<Rightarrow> (string \<Rightarrow> real) \<Rightarrow> pydict \<Rightarrow> string \<times> int \<times> int \<Rightarrow> pydict" where
  "evolve_key noise_scale z candidate entry =
     (case entry of
        (key, low, high) \<Rightarrow>
          (case (case map_of candidate key of Some v \<Rightarrow> as_num v | None \<Rightarrow> None) of
             Some x \<Rightarrow>
               (let range_size = high - low;
                    noise = py_int (gauss 0 noise_scale (z key) * of_int range_size);
                    new_value = x + of_int noise
                in dict_set candidate key
                     (PInt (py_int (py_max2 (of_int low) (py_min2 (of_int high) new_value)))))
           | None \<Rightarrow> dict_set candidate key (PInt (py_int (of_int (low + high) / 2)))))"

text \<open>The format \<^verbatim>\<open>:07d\<close> of an integer: its decimal digits, filled with zeros after the
  sign up to a width of seven.\<close>

fun dec_digits :: "nat \<Rightarrow> string" where
  "dec_digits n =
     (if n < 10 then [''0123456789'' ! n]
      else dec_digits (n div 10) @ [''0123456789'' ! (n mod 10)])"

declare dec_digits.simps [simp del]

definition zero_pad :: "nat \<Rightarrow> string \<Rightarrow> string" where
  "zero_pad width s = replicate (width - length s) (CHR ''0'') @ s"

definition format_07d :: "int \<Rightarrow> string" where
  "format_07d n =
     (if n < 0 then CHR ''-'' # zero_pad 6 (dec_digits (nat (- n)))
      else zero_pad 7 (dec_digits (nat n)))"

text \<open>\<^verbatim>\<open>evolve\<close> as a function of the parent's value: \<open>n\<close> is the result of
  \<^verbatim>\<open>random.randint(0, 10_000_000)\<close>.\<close>

definition evolve :: "real \<Rightarrow> (string \<Rightarrow> real) \<Rightarrow> int \<Rightarrow> pydict \<Rightarrow> pydict" where
  "evolve noise_scale z n parent =
     (let candidate = fold (\<lambda>entry c. evolve_key noise_scale z c entry) numeric_keys parent
      in dict_set candidate ''id'' (PStr (''arch_'' @ format_07d n)))"

text \<open>\<^verbatim>\<open>evolve\<close> on objects. A heap is the list of the dict objects alive, an object's
  reference its position. \<^verbatim>\<open>copy.deepcopy\<close> allocates a new object with the parent's
  content; every later statement reads and writes that object.\<close>

type_synonym heap = "pydict list"

definition deepcopy :: "heap \<Rightarrow> nat \<Rightarrow> nat \<times> heap" where
  "deepcopy h r = (length h, h @ [h ! r])"

definition evolve_in_heap :: "real \<Rightarrow> (string \<Rightarrow> real) \<Rightarrow> int \<Rightarrow> heap \<Rightarrow> nat \<Rightarrow> nat \<times> heap" where
  "evolve_in_heap noise_scale z n h parent =
     (case deepcopy h parent of
        (candidate, h1) \<Rightarrow>
          (let h2 = fold (\<lambda>entry h'. h'[candidate := evolve_key noise_scale z (h' ! candidate) entry])
                      numeric_keys h1;
               h3 = h2[candidate := dict_set (h2 ! candidate) ''id'' (PStr (''arch_'' @ format_07d n))]
           in (candidate, h3)))"

section \<open>The retrieval service (cognition_base/rag_service.py)\<close>

definition default_corpus :: "string list" where
  "default_corpus =
     [''Linear attention mechanisms can reduce the quadratic complexity '' @
      ''of standard self'' @ [CHR 0xE2, CHR 0x80, CHR 0x91] @
      ''attention by approximating the softmax kernel.'',
      ''Increasing the number of layers and hidden size typically improves '' @
      ''model capacity but also increases compute requirements.'',
      ''Novel architectures should balance expressiveness with efficiency.'']"

text \<open>The constructor: \<^verbatim>\<open>corpus or [...]\<close> puts the default corpus in the place of
  \<^verbatim>\<open>None\<close> and of an empty list.\<close>

definition RAGService_init :: "string list option \<Rightarrow> string list" where
  "RAGService_init corpus =
     (case corpus of None \<Rightarrow> default_corpus | Some c \<Rightarrow> if c = [] then default_corpus else c)"

fun query_loop :: "string \<Rightarrow> string list \<Rightarrow> string list \<Rightarrow> string list" where
  "query_loop question_lower results [] = results"
| "query_loop question_lower results (sent # rest) =
     (if list_ex (\<lambda>word. str_contains word (lower sent)) (split_ws question_lower)
      then query_loop question_lower (results @ [sent]) rest
      else query_loop question_lower results rest)"

definition query :: "string list \<Rightarrow> string \<Rightarrow> int \<Rightarrow> string list" where
  "query corpus question top_k =
     (let question_lower = lower question;
          results = query_loop question_lower [] corpus
      in if results \<noteq> [] then py_slice_to results top_k else py_slice_to corpus top_k)"

section \<open>Vocabulary of the properties\<close>

text \<open>The number a stored record is ranked by: its \<^verbatim>\<open>composite_score\<close>, and 0 for a
  record without one.\<close>

fun rank_of :: "pyval \<Rightarrow> real" where
  "rank_of (PDict d) =
     (case map_of d ''composite_score'' of
        Some v \<Rightarrow> (case as_num v of Some r \<Rightarrow> r | None \<Rightarrow> 0)
      | None \<Rightarrow> 0)"
| "rank_of _ = 0"

text \<open>The \<^verbatim>\<open>architecture\<close> entry of a stored record, if it has one.\<close>

fun architecture_of :: "pyval \<Rightarrow> pyval option" where
  "architecture_of (PDict d) = map_of d ''architecture''"
| "architecture_of _ = None"

text \<open>A record that may lack fields: a dict whose \<^verbatim>\<open>composite_score\<close>, if present, is a
  number.\<close>

fun rankable :: "pyval \<Rightarrow> bool" where
  "rankable (PDict d) =
     (case map_of d ''composite_score'' of Some v \<Rightarrow> as_num v \<noteq> None | None \<Rightarrow> True)"
| "rankable _ = False"

text \<open>A record as \<^verbatim>\<open>save_result\<close> writes it: a dict with an \<^verbatim>\<open>architecture\<close> and a
  numeric \<^verbatim>\<open>composite_score\<close>.\<close>

fun is_cycle_record :: "pyval \<Rightarrow> bool" where
  "is_cycle_record (PDict d) =
     (map_of d ''architecture'' \<noteq> None \<and>
      (case map_of d ''composite_score'' of Some v \<Rightarrow> as_num v \<noteq> None | None \<Rightarrow> False))"
| "is_cycle_record _ = False"

text \<open>\<open>r\<close> is the first record of \<open>data\<close> with the greatest rank: every record before it
  ranks strictly lower, no record after it ranks higher.\<close>

definition first_maximum :: "pyval list \<Rightarrow> pyval \<Rightarrow> bool" where
  "first_maximum data r =
     (\<exists>pre post. data = pre @ r # post \<and>
        list_all (\<lambda>y. rank_of y < rank_of r) pre \<and> list_all (\<lambda>y. rank_of y \<le> rank_of r) post)"

text \<open>A parameter the evolver repairs: the key is missing from the dict, or its value is
  no instance of \<^verbatim>\<open>(int, float)\<close>.\<close>

definition absent_or_non_numeric :: "pydict \<Rightarrow> string \<Rightarrow> bool" where
  "absent_or_non_numeric d key = (case map_of d key of None \<Rightarrow> True | Some v \<Rightarrow> as_num v = None)"

text \<open>Reading a string of decimal digits back as a number.\<close>

definition digit_value :: "char \<Rightarrow> nat" where
  "digit_value c = of_char c - 48"

definition read_dec :: "string \<Rightarrow> nat" where
  "read_dec s = foldl (\<lambda>a c. 10 * a + digit_value c) 0 s"

text \<open>A sentence matches a question when some word of the lower-cased question occurs in
  the lower-cased sentence.\<close>

definition matches :: "string \<Rightarrow> string \<Rightarrow> bool" where
  "matches question sent =
     list_ex (\<lambda>word. str_contains word (lower sent)) (split_ws (lower question))"





subsection \<open>Sample inputs\<close>

text \<open>Two reports with composite scores 0.9 and 0.3, and a history whose records lack
  fields.\<close>

definition report_09 :: AnalysisReport where
  "report_09 =
     \<lparr>architecture = [(''hidden_size'', PInt 640), (''id'', PStr ''arch_0000001'')],
      evaluation = \<lparr>performance = 1, novelty = 1, complexity = 0, raw_response = PStr ''fallback''\<rparr>,
      composite_score = 0.9, summary = ''first''\<rparr>"

definition report_03 :: AnalysisReport where
  "report_03 =
     \<lparr>architecture = [(''hidden_size'', PInt 700), (''id'', PStr ''arch_0000002'')],
      evaluation = \<lparr>performance = 0.5, novelty = 0, complexity = 0, raw_response = PStr ''fallback''\<rparr>,
      composite_score = 0.3, summary = ''second''\<rparr>"

definition sparse_history :: "pyval list" where
  "sparse_history =
     [PDict [(''composite_score'', PFloat (- 0.5)), (''architecture'', PDict [(''num_layers'', PInt 3)])],
      PDict [(''summary'', PStr ''no score, no architecture'')],
      PDict [(''architecture'', PDict [(''num_layers'', PInt 9)])]]"

text \<open>A parent whose three parameters are missing or not numbers, and a parent that carries
  an id of the evolver's own making together with keys the evolver does not know.\<close>

definition unrepaired_parent :: pydict where
  "unrepaired_parent = [(''num_heads'', PStr ''eight''), (''dropout'', PFloat 0.1)]"

definition tagged_parent :: pydict where
  "tagged_parent = [(''id'', PStr ''arch_0000042''), (''hidden_size'', PInt 512),
                    (''activation'', PStr ''gelu''), (''heads'', PList [PInt 1, PInt 2])]"






section \<open>Properties of the result store\<close>

lemma py_gt_num: "as_num a = Some x \<Longrightarrow> as_num b = Some y \<Longrightarrow> py_gt a b = Inr (y < x)"
  by (cases a; cases b; simp)

lemma composite_key_rankable:
  "rankable x \<Longrightarrow> \<exists>v. composite_key x = Inr v \<and> as_num v = Some (rank_of x)"
  by (cases x) (auto simp: composite_key_def split: option.splits)

lemma max_loop_first_maximum:
  assumes "list_all rankable rest" "composite_key b = Inr bv" "as_num bv = Some (rank_of b)"
  shows "\<exists>r. max_loop composite_key b bv rest = Inr r \<and> first_maximum (b # rest) r"
  using assms
proof (induction rest arbitrary: b bv)
  case Nil
  have "first_maximum [b] b"
    unfolding first_maximum_def by (intro exI[of _ "[]"]) simp
  then show ?case by simp
next
  case (Cons x xs)
  from Cons.prems(1) have rx: "rankable x" and rxs: "list_all rankable xs" by simp_all
  from composite_key_rankable[OF rx] obtain xv
    where kx: "composite_key x = Inr xv" and nx: "as_num xv = Some (rank_of x)" by blast
  have gt: "py_gt xv bv = Inr (rank_of b < rank_of x)"
    by (rule py_gt_num[OF nx Cons.prems(3)])
  show ?case
  proof (cases "rank_of b < rank_of x")
    case True
    from Cons.IH[OF rxs kx nx] obtain r pre post
      where res: "max_loop composite_key x xv xs = Inr r"
        and split: "x # xs = pre @ r # post"
        and lo: "list_all (\<lambda>y. rank_of y < rank_of r) pre"
        and hi: "list_all (\<lambda>y. rank_of y \<le> rank_of r) post"
      unfolding first_maximum_def by blast
    have "rank_of x \<le> rank_of r"
    proof (cases pre)
      case Nil
      with split show ?thesis by simp
    next
      case (Cons p ps)
      with split lo show ?thesis by simp
    qed
    with True have "rank_of b < rank_of r" by simp
    with split lo hi have "first_maximum (b # x # xs) r"
      unfolding first_maximum_def by (intro exI[of _ "b # pre"] exI[of _ post]) simp
    with res kx gt True show ?thesis by simp
  next
    case False
    from Cons.IH[OF rxs Cons.prems(2) Cons.prems(3)] obtain r pre post
      where res: "max_loop composite_key b bv xs = Inr r"
        and split: "b # xs = pre @ r # post"
        and lo: "list_all (\<lambda>y. rank_of y < rank_of r) pre"
        and hi: "list_all (\<lambda>y. rank_of y \<le> rank_of r) post"
      unfolding first_maximum_def by blast
    have "first_maximum (b # x # xs) r"
    proof (cases pre)
      case Nil
      with split have "r = b" "post = xs" by simp_all
      with hi False show ?thesis
        unfolding first_maximum_def by (intro exI[of _ "[]"] exI[of _ "x # xs"]) simp
    next
      case (Cons p ps)
      with split have "p = b" "xs = ps @ r # post" by simp_all
      with lo Cons False hi show ?thesis
        unfolding first_maximum_def by (intro exI[of _ "b # x # ps"] exI[of _ post]) simp
    qed
    with res kx gt False show ?thesis by simp
  qed
qed

lemma py_max_first_maximum:
  assumes "data \<noteq> []" "list_all rankable data"
  shows "\<exists>r. py_max composite_key data = Inr r \<and> first_maximum data r"
proof (cases data)
  case Nil
  with assms show ?thesis by simp
next
  case (Cons b rest)
  with assms have rb: "rankable b" and rr: "list_all rankable rest" by simp_all
  from composite_key_rankable[OF rb] obtain bv
    where kb: "composite_key b = Inr bv" and nb: "as_num bv = Some (rank_of b)" by blast
  from max_loop_first_maximum[OF rr kb nb] Cons kb show ?thesis by simp
qed

text \<open>C2: on a non-empty history of records that each hold an architecture and a numeric
  composite score, \<open>sample_parent\<close> returns the \<^verbatim>\<open>architecture\<close> entry of the record with
  the greatest composite score, and among equals of the one stored first: every record
  before the chosen one has a strictly smaller score, every record after it a score that
  is not greater.\<close>

theorem sample_parent_first_maximum:
  assumes "data \<noteq> []" and "list_all is_cycle_record data"
  shows "\<exists>pre r post a. data = pre @ r # post \<and>
           list_all (\<lambda>y. rank_of y < rank_of r) pre \<and>
           list_all (\<lambda>y. rank_of y \<le> rank_of r) post \<and>
           architecture_of r = Some a \<and> sample_parent data = Inr a"
proof -
  have cr: "is_cycle_record x \<Longrightarrow> rankable x" for x
    by (cases x) (auto split: option.splits)
  from assms(2) have "list_all rankable data"
    by (auto simp: list_all_iff cr)
  from py_max_first_maximum[OF assms(1) this] obtain r pre post
    where best: "py_max composite_key data = Inr r"
      and split: "data = pre @ r # post"
      and lo: "list_all (\<lambda>y. rank_of y < rank_of r) pre"
      and hi: "list_all (\<lambda>y. rank_of y \<le> rank_of r) post"
    unfolding first_maximum_def by blast
  from split assms(2) have "is_cycle_record r" by simp
  then obtain a where a: "architecture_of r = Some a"
    and get: "py_get r ''architecture'' default_architecture = Inr a"
    by (cases r) auto
  from best get assms(1) have "sample_parent data = Inr a"
    by (simp add: sample_parent_def)
  with split lo hi a show ?thesis by blast
qed

text \<open>The scenario of C2: a record with composite score 0.9 is appended to the empty store,
  then one with 0.3; the parent sampled is the architecture of the first.\<close>

theorem sample_parent_first_maximum_witness:
  "save_result (save_result [] report_09) report_03 \<noteq> [] \<and>
   list_all is_cycle_record (save_result (save_result [] report_09) report_03) \<and>
   sample_parent (save_result (save_result [] report_09) report_03)
     = Inr (PDict (architecture report_09))"
proof -
  let ?data = "save_result (save_result [] report_09) report_03"
  have d: "?data = [entry_of report_09, entry_of report_03]"
    by (simp add: save_result_def)
  have ne: "?data \<noteq> []" by (simp add: d)
  have wf: "list_all is_cycle_record ?data"
    by (simp add: d entry_of_def)
  have r1: "rank_of (entry_of report_09) = 0.9" and r2: "rank_of (entry_of report_03) = 0.3"
    by (simp_all add: entry_of_def report_09_def report_03_def)
  have a1: "architecture_of (entry_of report_09) = Some (PDict (architecture report_09))"
    by (simp add: entry_of_def)
  from sample_parent_first_maximum[OF ne wf] obtain pre r post a
    where split: "?data = pre @ r # post"
      and lo: "list_all (\<lambda>y. rank_of y < rank_of r) pre"
      and a: "architecture_of r = Some a" and res: "sample_parent ?data = Inr a"
    by blast
  have "r = entry_of report_09"
  proof (cases pre)
    case Nil
    with split d show ?thesis by simp
  next
    case (Cons p ps)
    with split d have "p = entry_of report_09" by simp
    moreover from Cons split d have "r = entry_of report_03"
      by (cases ps) simp_all
    ultimately show ?thesis using lo Cons r1 r2 by simp
  qed
  with a a1 res have "sample_parent ?data = Inr (PDict (architecture report_09))" by simp
  with ne wf show ?thesis by blast
qed

text \<open>C10: on a non-empty history of dicts whose composite score, where present, is a
  number, \<open>sample_parent\<close> raises nothing; a record without \<^verbatim>\<open>composite_score\<close> is
  ranked as 0, the first record of greatest rank is chosen, and the result is its
  \<^verbatim>\<open>architecture\<close> entry or, when it has none, the baseline without id.\<close>

theorem sample_parent_missing_fields:
  assumes "data \<noteq> []" and "list_all rankable data"
  shows "\<exists>pre r post. data = pre @ r # post \<and>
           list_all (\<lambda>y. rank_of y < rank_of r) pre \<and>
           list_all (\<lambda>y. rank_of y \<le> rank_of r) post \<and>
           sample_parent data =
             Inr (case architecture_of r of
                    Some a \<Rightarrow> a
                  | None \<Rightarrow> PDict [(''hidden_size'', PInt 512), (''num_layers'', PInt 6),
                                    (''num_heads'', PInt 8)])"
proof -
  from py_max_first_maximum[OF assms] obtain r pre post
    where best: "py_max composite_key data = Inr r"
      and split: "data = pre @ r # post"
      and lo: "list_all (\<lambda>y. rank_of y < rank_of r) pre"
      and hi: "list_all (\<lambda>y. rank_of y \<le> rank_of r) post"
    unfolding first_maximum_def by blast
  from split assms(2) have "rankable r" by simp
  then have "py_get r ''architecture'' default_architecture =
      Inr (case architecture_of r of Some a \<Rightarrow> a
           | None \<Rightarrow> PDict [(''hidden_size'', PInt 512), (''num_layers'', PInt 6),
                             (''num_heads'', PInt 8)])"
    by (cases r) (auto simp: default_architecture_def split: option.splits)
  with best assms(1) have "sample_parent data =
      Inr (case architecture_of r of Some a \<Rightarrow> a
           | None \<Rightarrow> PDict [(''hidden_size'', PInt 512), (''num_layers'', PInt 6),
                             (''num_heads'', PInt 8)])"
    by (simp add: sample_parent_def)
  with split lo hi show ?thesis by blast
qed

text \<open>In \<open>sparse_history\<close> the first record scores -0.5 and the two others, without a score,
  rank as 0; the second wins and has no architecture.\<close>

theorem sample_parent_missing_fields_witness:
  "sparse_history \<noteq> [] \<and> list_all rankable sparse_history \<and>
   sample_parent sparse_history =
     Inr (PDict [(''hidden_size'', PInt 512), (''num_layers'', PInt 6), (''num_heads'', PInt 8)])"
proof -
  have ne: "sparse_history \<noteq> []" and wf: "list_all rankable sparse_history"
    by (simp_all add: sparse_history_def)
  let ?e1 = "sparse_history ! 0" and ?e2 = "sparse_history ! 1" and ?e3 = "sparse_history ! 2"
  have d: "sparse_history = [?e1, ?e2, ?e3]" by (simp add: sparse_history_def)
  have r: "rank_of ?e1 = - 0.5" "rank_of ?e2 = 0" "rank_of ?e3 = 0"
    by (simp_all add: sparse_history_def)
  have a2: "architecture_of ?e2 = None" by (simp add: sparse_history_def)
  from sample_parent_missing_fields[OF ne wf] obtain pre r post
    where split: "sparse_history = pre @ r # post"
      and lo: "list_all (\<lambda>y. rank_of y < rank_of r) pre"
      and hi: "list_all (\<lambda>y. rank_of y \<le> rank_of r) post"
      and res: "sample_parent sparse_history =
        Inr (case architecture_of r of Some a \<Rightarrow> a
             | None \<Rightarrow> PDict [(''hidden_size'', PInt 512), (''num_layers'', PInt 6),
                               (''num_heads'', PInt 8)])"
    by blast
  from split d have "[?e1, ?e2, ?e3] = pre @ r # post" by simp
  then consider "pre = []" "r = ?e1" "post = [?e2, ?e3]"
    | "pre = [?e1]" "r = ?e2" "post = [?e3]"
    | "pre = [?e1, ?e2]" "r = ?e3" "post = []"
    by (auto simp: Cons_eq_append_conv append_eq_Cons_conv)
  then have "r = ?e2"
  proof cases
    case 1
    with hi r show ?thesis by simp
  next
    case 2
    then show ?thesis by simp
  next
    case 3
    with lo r show ?thesis by simp
  qed
  with res a2 ne wf show ?thesis by simp
qed

text \<open>C5, as stated, fails: on the empty history the result is not the dict of the three
  parameters alone.\<close>

theorem sample_parent_empty_no_id_counterexample:
  "sample_parent [] \<noteq>
     Inr (PDict [(''hidden_size'', PInt 512), (''num_layers'', PInt 6), (''num_heads'', PInt 8)])"
  by (simp add: sample_parent_def baseline_def)

text \<open>C5, amended: on the empty history \<open>sample_parent\<close> raises nothing and returns the fixed
  baseline, which carries the id \<^verbatim>\<open>baseline\<close> beside the three parameters.\<close>

theorem sample_parent_empty:
  "sample_parent [] =
     Inr (PDict [(''id'', PStr ''baseline''), (''hidden_size'', PInt 512),
                 (''num_layers'', PInt 6), (''num_heads'', PInt 8)])"
  by (simp add: sample_parent_def baseline_def)

section \<open>Properties of the analyzer\<close>

text \<open>C1: the composite score of a report is the weighted sum
  0.6 * performance + 0.3 * novelty - 0.1 * complexity clamped to the interval from 0 to 1,
  whatever the three scores are, and so lies between 0 and 1 inclusive.\<close>

theorem composite_score_clamped:
  "composite_score (analyze fmt str_of arch ev) =
     max 0 (min 1 (0.6 * performance ev + 0.3 * novelty ev - 0.1 * complexity ev)) \<and>
   0 \<le> composite_score (analyze fmt str_of arch ev) \<and>
   composite_score (analyze fmt str_of arch ev) \<le> 1"
  by (simp add: analyze_def composite_of_def py_max2_def py_min2_def Let_def max_def min_def)

section \<open>Properties of the evolver\<close>

lemma map_of_dict_set: "map_of (dict_set d k v) = (map_of d)(k \<mapsto> v)"
  by (induction d k v rule: dict_set.induct) auto

lemma clamp_in_range:
  assumes "0 \<le> low" "low \<le> high"
  shows "low \<le> py_int (py_max2 (of_int low) (py_min2 (of_int high) x)) \<and>
         py_int (py_max2 (of_int low) (py_min2 (of_int high) x)) \<le> high"
proof -
  let ?y = "py_max2 (of_int low) (py_min2 (of_int high) x)"
  from assms have lo: "of_int low \<le> ?y" and hi: "?y \<le> of_int high"
    by (auto simp: py_max2_def py_min2_def)
  from assms lo have "0 \<le> ?y" by linarith
  then have "py_int ?y = \<lfloor>?y\<rfloor>" by (simp add: py_int_def)
  moreover from lo have "low \<le> \<lfloor>?y\<rfloor>" by (simp add: le_floor_iff)
  moreover from hi have "\<lfloor>?y\<rfloor> \<le> high" by (simp add: floor_le_iff)
  ultimately show ?thesis by simp
qed

lemma evolve_key_lookup:
  "map_of (evolve_key ns z c (key, low, high)) =
     (map_of c)(key \<mapsto> PInt
        (case (case map_of c key of Some v \<Rightarrow> as_num v | None \<Rightarrow> None) of
           Some x \<Rightarrow> py_int (py_max2 (of_int low) (py_min2 (of_int high)
                        (x + of_int (py_int (gauss 0 ns (z key) * of_int (high - low))))))
         | None \<Rightarrow> py_int (of_int (low + high) / 2)))"
  by (simp add: evolve_key_def map_of_dict_set Let_def split: option.splits)

lemma evolve_key_value:
  assumes "0 \<le> low" "low \<le> high"
  shows "\<exists>v. map_of (evolve_key ns z c (key, low, high)) key = Some (PInt v) \<and> low \<le> v \<and> v \<le> high"
proof (cases "case map_of c key of Some v \<Rightarrow> as_num v | None \<Rightarrow> None")
  case None
  have "py_int (of_int (low + high) / 2) = (low + high) div 2"
  proof -
    from assms have "0 \<le> (of_int (low + high) / 2 :: real)" by simp
    then have "py_int (of_int (low + high) / 2) = \<lfloor>of_int (low + high) / (2::real)\<rfloor>"
      by (simp add: py_int_def)
    also have "\<dots> = (low + high) div 2"
      using floor_divide_of_int_eq[of "low + high" 2, where ?'a = real] by simp
    finally show ?thesis .
  qed
  moreover from assms have "low \<le> (low + high) div 2" "(low + high) div 2 \<le> high" by linarith+
  ultimately show ?thesis using None by (simp add: evolve_key_lookup)
next
  case (Some x)
  with clamp_in_range[OF assms] show ?thesis by (simp add: evolve_key_lookup)
qed

lemma evolve_key_other:
  "k \<noteq> key \<Longrightarrow> map_of (evolve_key ns z c (key, low, high)) k = map_of c k"
  by (simp add: evolve_key_lookup)

lemma evolve_unfold:
  "evolve ns z n parent =
     dict_set (evolve_key ns z (evolve_key ns z (evolve_key ns z parent (''hidden_size'', 32, 2048))
        (''num_layers'', 1, 48)) (''num_heads'', 1, 32)) ''id'' (PStr (''arch_'' @ format_07d n))"
  by (simp add: evolve_def numeric_keys_def)

text \<open>C6: whatever the parent holds and whatever the noise drawn, the candidate holds an
  integer under each of the three recognized parameters, within [32, 2048] for
  \<^verbatim>\<open>hidden_size\<close>, [1, 48] for \<^verbatim>\<open>num_layers\<close> and [1, 32] for \<^verbatim>\<open>num_heads\<close>.\<close>

theorem evolve_in_range:
  "\<exists>a b c. map_of (evolve ns z n parent) ''hidden_size'' = Some (PInt a) \<and> 32 \<le> a \<and> a \<le> 2048 \<and>
           map_of (evolve ns z n parent) ''num_layers'' = Some (PInt b) \<and> 1 \<le> b \<and> b \<le> 48 \<and>
           map_of (evolve ns z n parent) ''num_heads'' = Some (PInt c) \<and> 1 \<le> c \<and> c \<le> 32"
proof -
  let ?c1 = "evolve_key ns z parent (''hidden_size'', 32, 2048)"
  let ?c2 = "evolve_key ns z ?c1 (''num_layers'', 1, 48)"
  let ?c3 = "evolve_key ns z ?c2 (''num_heads'', 1, 32)"
  obtain a where a: "map_of ?c1 ''hidden_size'' = Some (PInt a)" "32 \<le> a" "a \<le> 2048"
    using evolve_key_value[of 32 2048 ns z parent "''hidden_size''"] by auto
  obtain b where b: "map_of ?c2 ''num_layers'' = Some (PInt b)" "1 \<le> b" "b \<le> 48"
    using evolve_key_value[of 1 48 ns z ?c1 "''num_layers''"] by auto
  obtain c where c: "map_of ?c3 ''num_heads'' = Some (PInt c)" "1 \<le> c" "c \<le> 32"
    using evolve_key_value[of 1 32 ns z ?c2 "''num_heads''"] by auto
  have "map_of (evolve ns z n parent) ''hidden_size'' = Some (PInt a)"
    using a(1) by (simp add: evolve_unfold map_of_dict_set evolve_key_other)
  moreover have "map_of (evolve ns z n parent) ''num_layers'' = Some (PInt b)"
    using b(1) by (simp add: evolve_unfold map_of_dict_set evolve_key_other)
  moreover have "map_of (evolve ns z n parent) ''num_heads'' = Some (PInt c)"
    using c(1) by (simp add: evolve_unfold map_of_dict_set)
  ultimately show ?thesis using a(2,3) b(2,3) c(2,3) by blast
qed

text \<open>C4: a recognized parameter that is missing from the parent, or whose value is not a
  number (no instance of \<^verbatim>\<open>(int, float)\<close>, which in Python includes \<^verbatim>\<open>bool\<close>), is set in
  the candidate to the truncated midpoint of its range: 1040, 24 and 16.\<close>

theorem evolve_midpoint:
  "(absent_or_non_numeric parent ''hidden_size'' \<longrightarrow>
      map_of (evolve ns z n parent) ''hidden_size'' = Some (PInt 1040)) \<and>
   (absent_or_non_numeric parent ''num_layers'' \<longrightarrow>
      map_of (evolve ns z n parent) ''num_layers'' = Some (PInt 24)) \<and>
   (absent_or_non_numeric parent ''num_heads'' \<longrightarrow>
      map_of (evolve ns z n parent) ''num_heads'' = Some (PInt 16))"
proof -
  have m1: "py_int (of_int (32 + 2048) / 2) = 1040"
    and m2: "py_int (of_int (1 + 48) / 2) = 24"
    and m3: "py_int (of_int (1 + 32) / 2) = 16"
    by (simp_all add: py_int_def)
  show ?thesis
    using m1 m2 m3
    by (auto simp: absent_or_non_numeric_def evolve_unfold map_of_dict_set evolve_key_lookup
        split: option.splits)
qed

text \<open>In \<open>unrepaired_parent\<close> two parameters are missing and \<^verbatim>\<open>num_heads\<close> is a string.\<close>

theorem evolve_midpoint_witness:
  "absent_or_non_numeric unrepaired_parent ''hidden_size'' \<and>
   absent_or_non_numeric unrepaired_parent ''num_layers'' \<and>
   absent_or_non_numeric unrepaired_parent ''num_heads'' \<and>
   map_of (evolve 0.1 (\<lambda>k. 2) 42 unrepaired_parent) ''hidden_size'' = Some (PInt 1040) \<and>
   map_of (evolve 0.1 (\<lambda>k. 2) 42 unrepaired_parent) ''num_layers'' = Some (PInt 24) \<and>
   map_of (evolve 0.1 (\<lambda>k. 2) 42 unrepaired_parent) ''num_heads'' = Some (PInt 16)"
proof -
  have h: "absent_or_non_numeric unrepaired_parent ''hidden_size''"
    "absent_or_non_numeric unrepaired_parent ''num_layers''"
    "absent_or_non_numeric unrepaired_parent ''num_heads''"
    by (simp_all add: absent_or_non_numeric_def unrepaired_parent_def)
  with evolve_midpoint[of unrepaired_parent "0.1" "\<lambda>k. 2" 42] show ?thesis by simp
qed

lemma evolve_frame:
  assumes "k \<noteq> ''hidden_size''" "k \<noteq> ''num_layers''" "k \<noteq> ''num_heads''" "k \<noteq> ''id''"
  shows "map_of (evolve ns z n parent) k = map_of parent k"
  using assms by (simp add: evolve_unfold map_of_dict_set evolve_key_lookup)

lemma evolve_in_heap_eq:
  assumes "p < length h"
  shows "evolve_in_heap ns z n h p = (length h, h @ [evolve ns z n (h ! p)])"
  using assms
  by (simp add: evolve_in_heap_def deepcopy_def evolve_unfold numeric_keys_def Let_def nth_append)

text \<open>C7: \<open>evolve\<close> works on a copy. The parent object, and every other object of the heap,
  is after the call what it was before; the candidate is a new object, and every key
  of the parent other than the three parameters and \<^verbatim>\<open>id\<close> has in the candidate the
  value it has in the parent.\<close>

theorem evolve_leaves_parent:
  assumes "p < length h"
  shows "\<exists>c h'. evolve_in_heap ns z n h p = (c, h') \<and> c \<noteq> p \<and> h' ! p = h ! p \<and>
           take (length h) h' = h \<and> h' ! c = evolve ns z n (h ! p) \<and>
           (\<forall>k. k \<notin> {''hidden_size'', ''num_layers'', ''num_heads'', ''id''} \<longrightarrow>
                  map_of (h' ! c) k = map_of (h ! p) k)"
proof -
  from assms have "evolve_in_heap ns z n h p = (length h, h @ [evolve ns z n (h ! p)])"
    by (rule evolve_in_heap_eq)
  moreover from assms have "length h \<noteq> p" by simp
  moreover from assms have "(h @ [evolve ns z n (h ! p)]) ! p = h ! p"
    by (simp add: nth_append)
  moreover have "(h @ [evolve ns z n (h ! p)]) ! length h = evolve ns z n (h ! p)" by simp
  moreover have "\<forall>k. k \<notin> {''hidden_size'', ''num_layers'', ''num_heads'', ''id''} \<longrightarrow>
      map_of (evolve ns z n (h ! p)) k = map_of (h ! p) k"
    using evolve_frame by blast
  ultimately show ?thesis by simp
qed

theorem evolve_leaves_parent_witness:
  "(0::nat) < length [tagged_parent] \<and>
   fst (evolve_in_heap 0.1 (\<lambda>k. 1) 7 [tagged_parent] 0) = 1 \<and>
   snd (evolve_in_heap 0.1 (\<lambda>k. 1) 7 [tagged_parent] 0) ! 0 = tagged_parent \<and>
   map_of (snd (evolve_in_heap 0.1 (\<lambda>k. 1) 7 [tagged_parent] 0) ! 1) ''activation''
     = Some (PStr ''gelu'') \<and>
   map_of (snd (evolve_in_heap 0.1 (\<lambda>k. 1) 7 [tagged_parent] 0) ! 1) ''heads''
     = Some (PList [PInt 1, PInt 2])"
proof -
  have len: "(0::nat) < length [tagged_parent]" by simp
  from evolve_leaves_parent[OF len, of "0.1" "\<lambda>k. 1" 7] obtain c h'
    where run: "evolve_in_heap 0.1 (\<lambda>k. 1) 7 [tagged_parent] 0 = (c, h')"
      and p: "h' ! 0 = [tagged_parent] ! 0"
      and pre: "take (length [tagged_parent]) h' = [tagged_parent]"
      and c: "h' ! c = evolve 0.1 (\<lambda>k. 1) 7 ([tagged_parent] ! 0)"
      and frame: "\<forall>k. k \<notin> {''hidden_size'', ''num_layers'', ''num_heads'', ''id''} \<longrightarrow>
                  map_of (h' ! c) k = map_of ([tagged_parent] ! 0) k"
    by blast
  have "c = 1" using run by (simp add: evolve_in_heap_def deepcopy_def Let_def)
  moreover from frame have "map_of (h' ! c) ''activation'' = map_of tagged_parent ''activation''"
    by simp
  moreover from frame have "map_of (h' ! c) ''heads'' = map_of tagged_parent ''heads''"
    by simp
  ultimately show ?thesis using run p by (simp add: tagged_parent_def)
qed

lemma digit_value_nth: "d < 10 \<Longrightarrow> digit_value (''0123456789'' ! d) = d"
proof -
  assume "d < 10"
  then have "d \<in> {0, 1, 2, 3, 4, 5, 6, 7, 8, 9}" by auto
  then show ?thesis by (auto simp: digit_value_def)
qed

lemma read_dec_snoc: "read_dec (s @ [c]) = 10 * read_dec s + digit_value c"
  by (simp add: read_dec_def)

lemma read_dec_digits: "read_dec (dec_digits n) = n"
proof (induction n rule: dec_digits.induct)
  case (1 n)
  show ?case
  proof (cases "n < 10")
    case True
    then show ?thesis
      by (subst dec_digits.simps) (simp add: read_dec_def digit_value_nth)
  next
    case False
    with "1.IH" have "read_dec (dec_digits (n div 10)) = n div 10" by simp
    with False show ?thesis
      by (subst dec_digits.simps) (simp add: read_dec_snoc digit_value_nth)
  qed
qed

lemma read_dec_zeros: "read_dec (replicate k (CHR ''0'') @ s) = read_dec s"
proof (induction k)
  case 0
  then show ?case by simp
next
  case (Suc k)
  have "foldl (\<lambda>a c. 10 * a + digit_value c) 0 (CHR ''0'' # t) =
        foldl (\<lambda>a c. 10 * a + digit_value c) 0 t" for t
    by (simp add: digit_value_def)
  with Suc show ?case by (simp add: read_dec_def)
qed

lemma read_dec_format: "0 \<le> n \<Longrightarrow> read_dec (format_07d n) = nat n"
  by (simp add: format_07d_def zero_pad_def read_dec_zeros read_dec_digits)

lemma evolve_id: "map_of (evolve ns z n parent) ''id'' = Some (PStr (''arch_'' @ format_07d n))"
  by (simp add: evolve_unfold map_of_dict_set)

text \<open>C8, as stated, fails: a parent that carries the id \<^verbatim>\<open>arch_0000042\<close>, as a candidate of
  an earlier cycle may, gets a candidate of the same id when the draw is 42.\<close>

theorem evolve_id_collision_counterexample:
  "map_of (evolve 0.1 (\<lambda>k. 0) 42 tagged_parent) ''id'' = map_of tagged_parent ''id''"
proof -
  have "dec_digits 42 = ''42''"
    by (simp add: dec_digits.simps)
  then have "format_07d 42 = ''0000042''"
    by (simp add: format_07d_def zero_pad_def numeral_eq_Suc)
  then show ?thesis
    by (simp add: evolve_id tagged_parent_def)
qed

text \<open>C8, amended: the candidate's id is \<^verbatim>\<open>arch_\<close> followed by the draw in seven decimal
  digits, whatever id the parent has; two different draws give different ids, and the id
  differs from the parent's unless the parent's id is the very string of this draw.\<close>

theorem evolve_fresh_id:
  "map_of (evolve ns z n parent) ''id'' = Some (PStr (''arch_'' @ format_07d n)) \<and>
   (0 \<le> n \<and> 0 \<le> m \<and> n \<noteq> m \<longrightarrow>
      map_of (evolve ns z n parent) ''id'' \<noteq> map_of (evolve ns' z' m parent') ''id'') \<and>
   (map_of parent ''id'' \<noteq> Some (PStr (''arch_'' @ format_07d n)) \<longrightarrow>
      map_of (evolve ns z n parent) ''id'' \<noteq> map_of parent ''id'')"
proof -
  have "format_07d n \<noteq> format_07d m" if "0 \<le> n" "0 \<le> m" "n \<noteq> m"
  proof
    assume "format_07d n = format_07d m"
    then have "read_dec (format_07d n) = read_dec (format_07d m)" by simp
    with that show False by (simp add: read_dec_format)
  qed
  then show ?thesis by (auto simp: evolve_id)
qed

theorem evolve_fresh_id_witness:
  "(0::int) \<le> 42 \<and> (0::int) \<le> 43 \<and> (42::int) \<noteq> 43 \<and>
   map_of (evolve 0.1 (\<lambda>k. 0) 42 tagged_parent) ''id''
     \<noteq> map_of (evolve 0.1 (\<lambda>k. 0) 43 tagged_parent) ''id'' \<and>
   map_of tagged_parent ''id'' \<noteq> Some (PStr (''arch_'' @ format_07d 43)) \<and>
   map_of (evolve 0.1 (\<lambda>k. 0) 43 tagged_parent) ''id'' \<noteq> map_of tagged_parent ''id''"
proof -
  have "dec_digits 43 = ''43''"
    by (simp add: dec_digits.simps)
  then have "format_07d 43 = ''0000043''"
    by (simp add: format_07d_def zero_pad_def numeral_eq_Suc)
  then have differs: "map_of tagged_parent ''id'' \<noteq> Some (PStr (''arch_'' @ format_07d 43))"
    by (simp add: tagged_parent_def)
  have draws: "(0::int) \<le> 42 \<and> (0::int) \<le> 43 \<and> (42::int) \<noteq> 43" by simp
  from evolve_fresh_id[of "0.1" "\<lambda>k. 0" 42 tagged_parent 43 "0.1" "\<lambda>k. 0" tagged_parent] draws
  have a: "map_of (evolve 0.1 (\<lambda>k. 0) 42 tagged_parent) ''id''
     \<noteq> map_of (evolve 0.1 (\<lambda>k. 0) 43 tagged_parent) ''id''" by blast
  from evolve_fresh_id[of "0.1" "\<lambda>k. 0" 43 tagged_parent 0 "0.1" "\<lambda>k. 0" tagged_parent] differs
  have b: "map_of (evolve 0.1 (\<lambda>k. 0) 43 tagged_parent) ''id'' \<noteq> map_of tagged_parent ''id''"
    by blast
  from a b differs draws show ?thesis by blast
qed

section \<open>Properties of the evaluator\<close>


lemma call_llm_bad_status:
  "requests_post env (PDict [(''model'', model self), (''prompt'', PStr prompt),
      (''stream'', PBool False)]) = Reply status body \<Longrightarrow> 400 \<le> status \<Longrightarrow> status < 600 \<Longrightarrow>
   call_llm env self prompt = Inl HTTPError"
  by (simp add: call_llm_def)

lemma call_llm_malformed:
  "requests_post env (PDict [(''model'', model self), (''prompt'', PStr prompt),
      (''stream'', PBool False)]) = Reply status (Inl e) \<Longrightarrow> \<exists>e'. call_llm env self prompt = Inl e'"
  by (simp add: call_llm_def)

lemma call_llm_missing_field:
  "requests_post env (PDict [(''model'', model self), (''prompt'', PStr prompt),
      (''stream'', PBool False)]) = Reply status (Inr (PDict d)) \<Longrightarrow> map_of d ''response'' = None \<Longrightarrow>
   \<exists>e'. call_llm env self prompt = Inl e'"
  by (simp add: call_llm_def)






section \<open>Properties of the retrieval service\<close>

lemma query_loop_filter:
  "query_loop (lower question) results corpus = results @ filter (matches question) corpus"
  by (induction corpus arbitrary: results) (simp_all add: matches_def)

lemma query_eq:
  "query corpus question top_k =
     py_slice_to (if filter (matches question) corpus \<noteq> [] then filter (matches question) corpus
                  else corpus) top_k"
  by (simp add: query_def query_loop_filter Let_def)

lemma RAGService_init_nonempty: "RAGService_init corpus \<noteq> []"
  by (simp add: RAGService_init_def default_corpus_def split: option.splits)

text \<open>C9, as stated, fails: asked for two sentences about \<^verbatim>\<open>layers\<close>, the service returns
  the single sentence that matches; asked for none, it returns the empty list although
  the corpus is not empty.\<close>

theorem query_count_counterexample:
  "length (query default_corpus ''layers'' 2) = 1 \<and>
   default_corpus \<noteq> [] \<and> query default_corpus ''layers'' 0 = []"
proof -
  have "query default_corpus ''layers'' 2 = [default_corpus ! 1]"
    by code_simp
  moreover have "query default_corpus ''layers'' 0 = []"
    by (simp add: query_def py_slice_to_def Let_def)
  moreover have "default_corpus \<noteq> []"
    by (simp add: default_corpus_def)
  ultimately show ?thesis by simp
qed

text \<open>C9, amended: for a result count \<open>top_k\<close> of at least 0, \<open>query\<close> returns the first
  \<open>top_k\<close> of the matching sentences, in the order of the corpus, and all of them when
  they are fewer; when no sentence matches, the first \<open>top_k\<close> sentences of the corpus.
  The result never has more than \<open>top_k\<close> sentences, and it is empty only if \<open>top_k\<close> is 0
  or the corpus is empty.\<close>

theorem query_at_most_top_k:
  "(0 \<le> top_k \<longrightarrow>
      query corpus question top_k =
        take (nat top_k) (if filter (matches question) corpus \<noteq> []
                          then filter (matches question) corpus else corpus)) \<and>
   (0 \<le> top_k \<longrightarrow> int (length (query corpus question top_k)) \<le> top_k) \<and>
   (1 \<le> top_k \<and> corpus \<noteq> [] \<longrightarrow> query corpus question top_k \<noteq> [])"
proof -
  let ?pool = "if filter (matches question) corpus \<noteq> [] then filter (matches question) corpus
               else corpus"
  have q: "0 \<le> top_k \<Longrightarrow> query corpus question top_k = take (nat top_k) ?pool"
    by (simp only: query_eq py_slice_to_def if_True)
  have pool: "?pool \<noteq> []" if "corpus \<noteq> []"
    using that by simp
  have "take (nat top_k) ?pool \<noteq> []" if "1 \<le> top_k" "corpus \<noteq> []"
  proof -
    from that(1) have "0 < nat top_k" by simp
    with pool[OF that(2)] show ?thesis by (simp only: take_eq_Nil) simp
  qed
  with q have "1 \<le> top_k \<and> corpus \<noteq> [] \<longrightarrow> query corpus question top_k \<noteq> []"
    by fastforce
  moreover from q have "0 \<le> top_k \<longrightarrow> int (length (query corpus question top_k)) \<le> top_k"
    by auto
  ultimately show ?thesis using q by blast
qed

theorem query_at_most_top_k_witness:
  "(0::int) \<le> 2 \<and> (1::int) \<le> 2 \<and> default_corpus \<noteq> [] \<and>
   query default_corpus ''hidden LAYERS'' 2 = [default_corpus ! 1] \<and>
   query default_corpus ''zzz'' 2 = [default_corpus ! 0, default_corpus ! 1] \<and>
   query default_corpus ''zzz'' 2 \<noteq> []"
proof -
  have ne: "default_corpus \<noteq> []" by (simp add: default_corpus_def)
  have k: "(0::int) \<le> 2" "(1::int) \<le> 2" by simp_all
  have f1: "filter (matches ''hidden LAYERS'') default_corpus = [default_corpus ! 1]"
    by code_simp
  have f2: "filter (matches ''zzz'') default_corpus = []"
    by code_simp
  have t: "take (nat 2) default_corpus = [default_corpus ! 0, default_corpus ! 1]"
    by (simp add: default_corpus_def numeral_eq_Suc)
  from query_at_most_top_k[of 2 default_corpus "''hidden LAYERS''"] k f1
  have a: "query default_corpus ''hidden LAYERS'' 2 = [default_corpus ! 1]" by simp
  from query_at_most_top_k[of 2 default_corpus "''zzz''"] k f2 t
  have b: "query default_corpus ''zzz'' 2 = [default_corpus ! 0, default_corpus ! 1]" by simp
  from query_at_most_top_k[of 2 default_corpus "''zzz''"] k ne
  have c: "query default_corpus ''zzz'' 2 \<noteq> []" by blast
  from a b c ne k show ?thesis by blast
qed

end
